theory Spec2Isabelle
  imports Complex_Main "HOL-Library.Word" "HOL-Library.Sublist"
begin

section \<open>Risk scoring utility: data model\<close>

text \<open>
  A JavaScript string is a sequence of 16-bit code units, and \<open>String.prototype.includes\<close>
  compares code units. String literals of the source are ASCII apart from one
  \<open>U+00E9\<close>; \<open>str\<close> turns an ASCII literal into its code units.
\<close>

type_synonym jsstring = "16 word list"

definition str :: "string \<Rightarrow> jsstring" where
  "str s = map of_char s"

text \<open>
  The numbers of the module are scores, weights (one of them \<open>2.5\<close>) and their
  weighted mean. Every product and sum that occurs is a multiple of \<open>1/2\<close> below
  \<open>1000\<close>, exact in a double; the quotient by the total weight is rounded to a double
  that \<open>Math.round\<close> sends to the same integer as the exact quotient (the exact
  quotient is a multiple of \<open>1/20\<close>, so it is either a representable half-integer or
  at least \<open>1/20\<close> away from one). Numbers are therefore rationals. Release years
  are integers, as the data model declares them; the subtraction from the current year
  may round for a huge year, but rounding is monotone and the thresholds 70, 50, 30 and
  10 are representable, so each comparison of the age decides as on the exact integer.
\<close>

datatype level = High | Medium | Low

record RiskFactor =
  name :: jsstring
  weight :: rat
  score :: rat
  impact :: level
  description :: jsstring
  mitigation :: "jsstring option"

record RiskAssessmentResult =
  totalScore :: rat
  riskLevel :: level
  factors :: "RiskFactor list"
  potentialIssues :: "jsstring list"
  mitigationStrategies :: "jsstring list"

text \<open>
  \<open>new Date()\<close> reads the clock of the runtime: the instant of the call, here in its
  local calendar fields. It is an input of the model beside the arguments.
\<close>

record Date =
  fullYear :: int
  month :: nat
  date :: nat
  msOfDay :: nat

definition getFullYear :: "Date \<Rightarrow> int" where
  "getFullYear d = fullYear d"

section \<open>Built-ins of the language\<close>

fun startsWith :: "'a list \<Rightarrow> 'a list \<Rightarrow> bool" where
  "startsWith s [] = True"
| "startsWith [] (c # t) = False"
| "startsWith (d # s) (c # t) = (d = c \<and> startsWith s t)"

fun includes_js :: "'a list \<Rightarrow> 'a list \<Rightarrow> bool" where
  "includes_js [] t = (t = [])"
| "includes_js (d # s) t = (startsWith (d # s) t \<or> includes_js s t)"

primrec some :: "('a \<Rightarrow> bool) \<Rightarrow> 'a list \<Rightarrow> bool" where
  "some p [] = False"
| "some p (x # xs) = (p x \<or> some p xs)"

definition Math_round :: "rat \<Rightarrow> rat" where
  "Math_round x = of_int \<lfloor>x + 1 / 2\<rfloor>"

text \<open>Truthiness of an optional string: \<open>undefined\<close> and the empty string are falsy.\<close>

fun truthy :: "jsstring option \<Rightarrow> bool" where
  "truthy None = False"
| "truthy (Some s) = (s \<noteq> [])"





section \<open>The four assessors\<close>

definition majorLabels :: "jsstring list" where
  "majorLabels = map str
    [''Universal'', ''Sony'', ''Warner'', ''EMI'', ''Columbia'', ''Atlantic'',
     ''Interscope'', ''Capitol'', ''Def Jam'', ''RCA'', ''Republic'', ''Polydor'']"

definition assessLabelRisk :: "jsstring \<Rightarrow> RiskFactor" where
  "assessLabelRisk label =
    (let isMajorLabel = some (\<lambda>major. includes_js label major) majorLabels in
     \<lparr> name = str ''Label Ownership'',
       weight = 3,
       score = (if isMajorLabel then 80 else 40),
       impact = (if isMajorLabel then High else Medium),
       description = (if isMajorLabel
         then str ''The sample is owned by a major label, which typically have stricter clearance processes and higher fees.''
         else str ''The sample is owned by an independent label, which may be more flexible with clearance terms.''),
       mitigation = (if isMajorLabel
         then Some (str ''Consider budgeting for higher licensing fees or exploring alternative samples.'')
         else Some (str ''Reach out directly to the label with a personalized approach.'')) \<rparr>)"

definition assessAgeRisk :: "Date \<Rightarrow> int \<Rightarrow> RiskFactor" where
  "assessAgeRisk now releaseYear =
    (let currentYear = getFullYear now;
         age = currentYear - releaseYear;
         (score', impact', description', mitigation') =
           (if age \<ge> 70 then
              (20, Low,
               str ''The track may be approaching public domain in some jurisdictions.'',
               str ''Research public domain status in your jurisdiction, as this may simplify clearance.'')
            else if age \<ge> 50 then
              (30, Low,
               str ''The track has established clearance precedents and may have more accessible rights holders.'',
               str ''Look for previous clearance examples to establish reasonable terms.'')
            else if age \<ge> 30 then
              (40, Medium,
               str ''The track is well-established but still actively protected.'',
               str ''Approach with standard clearance procedures and reasonable offer terms.'')
            else if age \<ge> 10 then
              (60, Medium,
               str ''The track is relatively recent and likely actively managed by rights holders.'',
               str ''Prepare a compelling case for your creative use and be ready to negotiate terms.'')
            else
              (75, High,
               str ''The track is very recent and may have heightened protection from rights holders.'',
               str ''Consider offering higher royalty percentages or creative control to increase chances of approval.''))
     in \<lparr> name = str ''Track Age'',
          weight = 2,
          score = score',
          impact = impact',
          description = description',
          mitigation = Some mitigation' \<rparr>)"

definition veryPopularArtists :: "jsstring list" where
  "veryPopularArtists =
    [str ''Michael Jackson'', str ''The Beatles'', str ''Queen'', str ''Madonna'',
     str ''Beyonc'' @ [0xE9],
     str ''Drake'', str ''Taylor Swift'', str ''Ed Sheeran'', str ''Rihanna'', str ''Adele'',
     str ''James Brown'', str ''Prince'', str ''David Bowie'', str ''Whitney Houston'']"

definition popularArtists :: "jsstring list" where
  "popularArtists = map str
    [''Coldplay'', ''Radiohead'', ''Kendrick Lamar'', ''Daft Punk'', ''The Weeknd'',
     ''Alicia Keys'', ''Justin Timberlake'', ''Kanye West'', ''Lady Gaga'']"

definition assessPopularityRisk :: "jsstring \<Rightarrow> RiskFactor" where
  "assessPopularityRisk artist =
    (let (score', impact', description', mitigation') =
           (if some (\<lambda>a. includes_js artist a) veryPopularArtists then
              (85, High,
               str ''The artist is highly popular with significant commercial value and likely strict sample clearance policies.'',
               str ''Be prepared for higher licensing fees and consider legal representation for negotiations.'')
            else if some (\<lambda>a. includes_js artist a) popularArtists then
              (65, Medium,
               str ''The artist is well-known with established commercial value and standard clearance procedures.'',
               str ''Approach with professional clearance request and reasonable offer terms.'')
            else
              (35, Low,
               str ''The artist is less mainstream, which may simplify the clearance process.'',
               str ''Direct contact with the artist or their management may yield more favorable terms.''))
     in \<lparr> name = str ''Artist Popularity'',
          weight = 5 / 2,
          score = score',
          impact = impact',
          description = description',
          mitigation = Some mitigation' \<rparr>)"

definition frequentlySampledTracks :: "jsstring list" where
  "frequentlySampledTracks = map str
    [''Funky Drummer'', ''Amen Break'', ''Think'', ''La Di Da Di'',
     ''Apache'', ''Impeach the President'', ''Synthetic Substitution'',
     ''Change the Beat'', ''Bring the Noise'', ''When the Levee Breaks'']"

definition moderatelySampledTracks :: "jsstring list" where
  "moderatelySampledTracks =
    [str ''The Payback'', str ''Footsteps in the Dark'', str ''Nautilus'',
     str ''Funky President'', str ''More Bounce to the Ounce'',
     str ''Ain'' @ [0x27] @ str ''t No Sunshine'', str ''Darkest Light'']"

definition assessPreviousUsageRisk :: "jsstring \<Rightarrow> RiskFactor" where
  "assessPreviousUsageRisk track =
    (let (score', impact', description', mitigation') =
           (if some (\<lambda>t. includes_js track t) frequentlySampledTracks then
              (70, High,
               str ''This track has been frequently sampled, which may indicate established clearance procedures but also potential fatigue from rights holders.'',
               str ''Research previous clearance examples to understand typical terms and prepare a unique creative case for your usage.'')
            else if some (\<lambda>t. includes_js track t) moderatelySampledTracks then
              (50, Medium,
               str ''This track has been sampled several times, suggesting clearance is possible but may require negotiation.'',
               str ''Look for precedents in similar genres and prepare a professional clearance request.'')
            else
              (30, Low,
               str ''This track has not been widely sampled, which may indicate fewer precedents but potentially more openness from rights holders.'',
               str ''Emphasize the creative and respectful use of the sample in your clearance request.''))
     in \<lparr> name = str ''Previous Sample Usage'',
          weight = 5 / 2,
          score = score',
          impact = impact',
          description = description',
          mitigation = Some mitigation' \<rparr>)"

section \<open>Narrative and aggregation\<close>

definition generatePotentialIssues :: "level \<Rightarrow> RiskFactor list \<Rightarrow> jsstring list" where
  "generatePotentialIssues riskLevel' factors' =
    (let highImpactFactors = filter (\<lambda>factor. impact factor = High) factors' in
     if riskLevel' = High then
       [str ''Major label ownership may require higher licensing fees'',
        str ''Popular track with previous clearance challenges'',
        str ''Multiple rights holders may complicate negotiations'']
       @ map (\<lambda>factor. name factor @ str '' presents significant challenges: '' @ description factor)
           highImpactFactors
     else if riskLevel' = Medium then
       [str ''Some negotiation may be required for favorable terms'',
        str ''Rights holder may request creative control over usage'',
        str ''Approval process may take several weeks'']
       @ map (\<lambda>factor. name factor @ str '' presents challenges: '' @ description factor)
           highImpactFactors
     else
       [str ''Standard clearance process should be straightforward'',
        str ''Reasonable licensing fees expected'',
        str ''Quick turnaround time likely''])"

definition calculateRiskScore ::
  "Date \<Rightarrow> jsstring \<Rightarrow> jsstring \<Rightarrow> jsstring \<Rightarrow> int \<Rightarrow> jsstring \<Rightarrow> RiskAssessmentResult" where
  "calculateRiskScore now sourceTrack originalArtist rightsHolder releaseYear label =
    (let labelFactor = assessLabelRisk label;
         ageFactor = assessAgeRisk now releaseYear;
         popularityFactor = assessPopularityRisk originalArtist;
         usageFactor = assessPreviousUsageRisk sourceTrack;
         factors' = [labelFactor, ageFactor, popularityFactor, usageFactor];
         totalWeight = foldl (\<lambda>sum factor. sum + weight factor) 0 factors';
         weightedScore =
           foldl (\<lambda>sum factor. sum + score factor * weight factor) 0 factors' / totalWeight;
         totalScore' = Math_round weightedScore;
         riskLevel' = (if totalScore' \<ge> 70 then High else if totalScore' \<ge> 40 then Medium else Low);
         potentialIssues' = generatePotentialIssues riskLevel' factors';
         mitigationStrategies' =
           map (\<lambda>factor. the (mitigation factor))
             (filter (\<lambda>factor. truthy (mitigation factor)) factors')
     in \<lparr> totalScore = totalScore',
          riskLevel = riskLevel',
          factors = factors',
          potentialIssues = potentialIssues',
          mitigationStrategies = mitigationStrategies' \<rparr>)"

record RiskLevelColor =
  level :: string
  color :: string
  bg :: string


section \<open>The consumers of the score\<close>

text \<open>
  Every other place of the sources that turns a risk score into a level, a colour or a
  text, each under the name of its component. A score that may be absent
  (\<open>riskScore?: number\<close> of a project) is an optional number; where the source shows
  nothing for an absent score the result is \<open>None\<close>.
\<close>














subsection \<open>The hook \<open>useRiskAssessment\<close>\<close>










text \<open>
  The brackets of the track age, numbered from the youngest (0: below 10 years) to the
  oldest (4: 70 years and more). They name the five branches of \<open>assessAgeRisk\<close> in
  statements that compare two release years.
\<close>

definition ageBracket :: "int \<Rightarrow> nat" where
  "ageBracket age =
    (if age \<ge> 70 then 4 else if age \<ge> 50 then 3 else if age \<ge> 30 then 2
     else if age \<ge> 10 then 1 else 0)"

text \<open>Three instants used as concrete clocks: the last day of 2024, the first day of 2025 and a day of May 2024.\<close>

abbreviation (input) eve2024 :: Date where
  "eve2024 \<equiv> \<lparr> fullYear = 2024, month = 11, date = 31, msOfDay = 86399000 \<rparr>"

abbreviation (input) newYear2025 :: Date where
  "newYear2025 \<equiv> \<lparr> fullYear = 2025, month = 0, date = 1, msOfDay = 0 \<rparr>"

abbreviation (input) spring2024 :: Date where
  "spring2024 \<equiv> \<lparr> fullYear = 2024, month = 4, date = 14, msOfDay = 43200000 \<rparr>"

section \<open>The built-ins against their mathematical meaning\<close>

lemma startsWith_prefix: "startsWith s t \<longleftrightarrow> prefix t s"
  by (induction s t rule: startsWith.induct) auto

lemma includes_js_sublist: "includes_js s t \<longleftrightarrow> sublist t s"
  by (induction s) (simp_all add: startsWith_prefix sublist_Cons_right)

lemma some_Bex: "some p xs \<longleftrightarrow> (\<exists>x\<in>set xs. p x)"
  by (induction xs) simp_all

lemma some_includes_sublist:
  "some (\<lambda>m. includes_js s m) ms \<longleftrightarrow> (\<exists>m\<in>set ms. sublist m s)"
  by (simp add: some_Bex includes_js_sublist)

lemma Math_round_lower: "of_int lo \<le> x \<Longrightarrow> of_int lo \<le> Math_round x"
  unfolding Math_round_def by (simp add: le_floor_iff)



section \<open>What each assessor returns\<close>

lemma label_factor:
  "weight (assessLabelRisk l) = 3"
  "score (assessLabelRisk l) = 80 \<and> impact (assessLabelRisk l) = High
   \<or> score (assessLabelRisk l) = 40 \<and> impact (assessLabelRisk l) = Medium"
  "mitigation (assessLabelRisk l) \<noteq> None"
  "truthy (mitigation (assessLabelRisk l))"
  by (simp_all add: assessLabelRisk_def Let_def str_def)

lemma age_factor:
  "weight (assessAgeRisk now y) = 2"
  "score (assessAgeRisk now y) = 20 \<and> impact (assessAgeRisk now y) = Low
   \<or> score (assessAgeRisk now y) = 30 \<and> impact (assessAgeRisk now y) = Low
   \<or> score (assessAgeRisk now y) = 40 \<and> impact (assessAgeRisk now y) = Medium
   \<or> score (assessAgeRisk now y) = 60 \<and> impact (assessAgeRisk now y) = Medium
   \<or> score (assessAgeRisk now y) = 75 \<and> impact (assessAgeRisk now y) = High"
  "mitigation (assessAgeRisk now y) \<noteq> None"
  "truthy (mitigation (assessAgeRisk now y))"
  by (simp_all add: assessAgeRisk_def Let_def str_def)

lemma popularity_factor:
  "weight (assessPopularityRisk a) = 5 / 2"
  "score (assessPopularityRisk a) = 85 \<and> impact (assessPopularityRisk a) = High
   \<or> score (assessPopularityRisk a) = 65 \<and> impact (assessPopularityRisk a) = Medium
   \<or> score (assessPopularityRisk a) = 35 \<and> impact (assessPopularityRisk a) = Low"
  "mitigation (assessPopularityRisk a) \<noteq> None"
  "truthy (mitigation (assessPopularityRisk a))"
  by (simp_all add: assessPopularityRisk_def Let_def str_def)

lemma usage_factor:
  "weight (assessPreviousUsageRisk t) = 5 / 2"
  "score (assessPreviousUsageRisk t) = 70 \<and> impact (assessPreviousUsageRisk t) = High
   \<or> score (assessPreviousUsageRisk t) = 50 \<and> impact (assessPreviousUsageRisk t) = Medium
   \<or> score (assessPreviousUsageRisk t) = 30 \<and> impact (assessPreviousUsageRisk t) = Low"
  "mitigation (assessPreviousUsageRisk t) \<noteq> None"
  "truthy (mitigation (assessPreviousUsageRisk t))"
  by (simp_all add: assessPreviousUsageRisk_def Let_def str_def)

lemma score_ranges:
  "40 \<le> score (assessLabelRisk l) \<and> score (assessLabelRisk l) \<le> 80"
  "20 \<le> score (assessAgeRisk now y) \<and> score (assessAgeRisk now y) \<le> 75"
  "35 \<le> score (assessPopularityRisk a) \<and> score (assessPopularityRisk a) \<le> 85"
  "30 \<le> score (assessPreviousUsageRisk t) \<and> score (assessPreviousUsageRisk t) \<le> 70"
  using label_factor(2)[of l] age_factor(2)[of now y] popularity_factor(2)[of a]
    usage_factor(2)[of t]
  by auto

lemma label_score_impact:
  "score (assessLabelRisk l) = (if some (\<lambda>m. includes_js l m) majorLabels then 80 else 40)"
  "impact (assessLabelRisk l) = (if some (\<lambda>m. includes_js l m) majorLabels then High else Medium)"
  by (simp_all add: assessLabelRisk_def Let_def)

lemma age_score_impact:
  "(score (assessAgeRisk now y), impact (assessAgeRisk now y)) =
     (let age = getFullYear now - y in
      if age \<ge> 70 then (20, Low) else if age \<ge> 50 then (30, Low)
      else if age \<ge> 30 then (40, Medium) else if age \<ge> 10 then (60, Medium) else (75, High))"
  by (simp add: assessAgeRisk_def Let_def)

lemma popularity_score_impact:
  "(score (assessPopularityRisk a), impact (assessPopularityRisk a)) =
     (if some (\<lambda>x. includes_js a x) veryPopularArtists then (85, High)
      else if some (\<lambda>x. includes_js a x) popularArtists then (65, Medium) else (35, Low))"
  by (simp add: assessPopularityRisk_def Let_def)

lemma usage_score_impact:
  "(score (assessPreviousUsageRisk t), impact (assessPreviousUsageRisk t)) =
     (if some (\<lambda>x. includes_js t x) frequentlySampledTracks then (70, High)
      else if some (\<lambda>x. includes_js t x) moderatelySampledTracks then (50, Medium)
      else (30, Low))"
  by (simp add: assessPreviousUsageRisk_def Let_def)

section \<open>The fields of the result\<close>

lemma factors_eq:
  "factors (calculateRiskScore now t a h y l) =
     [assessLabelRisk l, assessAgeRisk now y, assessPopularityRisk a, assessPreviousUsageRisk t]"
  by (simp add: calculateRiskScore_def Let_def)

lemma totalScore_eq:
  "totalScore (calculateRiskScore now t a h y l) =
     Math_round ((score (assessLabelRisk l) * 3 + score (assessAgeRisk now y) * 2
        + score (assessPopularityRisk a) * (5 / 2)
        + score (assessPreviousUsageRisk t) * (5 / 2)) / 10)"
  by (simp add: calculateRiskScore_def Let_def label_factor(1) age_factor(1)
        popularity_factor(1) usage_factor(1))

lemma riskLevel_eq:
  "riskLevel (calculateRiskScore now t a h y l) =
     (if totalScore (calculateRiskScore now t a h y l) \<ge> 70 then High
      else if totalScore (calculateRiskScore now t a h y l) \<ge> 40 then Medium else Low)"
  by (simp add: calculateRiskScore_def Let_def)

lemma potentialIssues_eq:
  "potentialIssues (calculateRiskScore now t a h y l) =
     generatePotentialIssues (riskLevel (calculateRiskScore now t a h y l))
       (factors (calculateRiskScore now t a h y l))"
  by (simp add: calculateRiskScore_def Let_def)

lemma mitigationStrategies_eq:
  "mitigationStrategies (calculateRiskScore now t a h y l) =
     map (\<lambda>f. the (mitigation f)) (filter (\<lambda>f. truthy (mitigation f))
       (factors (calculateRiskScore now t a h y l)))"
  by (simp add: calculateRiskScore_def Let_def)

lemma weight_sum:
  "(\<Sum>f\<leftarrow>factors (calculateRiskScore now t a h y l). weight f) = 10"
  by (simp add: factors_eq label_factor(1) age_factor(1) popularity_factor(1) usage_factor(1))

lemma weighted_sum:
  "(\<Sum>f\<leftarrow>factors (calculateRiskScore now t a h y l). score f * weight f) =
      score (assessLabelRisk l) * 3 + score (assessAgeRisk now y) * 2
        + score (assessPopularityRisk a) * (5 / 2)
        + score (assessPreviousUsageRisk t) * (5 / 2)"
  by (simp add: factors_eq label_factor(1) age_factor(1) popularity_factor(1) usage_factor(1))


text \<open>
  One factor of high impact is enough to lift the weighted mean to 40: the three other
  scores are at least their minima 40, 20, 35 and 30. The low branch of
  \<open>generatePotentialIssues\<close>, which appends nothing, is thus only reached with no
  factor of high impact.
\<close>

lemma high_impact_not_low:
  assumes "impact (assessLabelRisk l) = High \<or> impact (assessAgeRisk now y) = High
     \<or> impact (assessPopularityRisk a) = High \<or> impact (assessPreviousUsageRisk t) = High"
  shows "40 \<le> totalScore (calculateRiskScore now t a h y l)"
proof -
  let ?q = "(score (assessLabelRisk l) * 3 + score (assessAgeRisk now y) * 2
        + score (assessPopularityRisk a) * (5 / 2)
        + score (assessPreviousUsageRisk t) * (5 / 2)) / 10"
  have "score (assessLabelRisk l) = 80 \<or> score (assessAgeRisk now y) = 75
     \<or> score (assessPopularityRisk a) = 85 \<or> score (assessPreviousUsageRisk t) = 70"
    using assms label_factor(2)[of l] age_factor(2)[of now y] popularity_factor(2)[of a]
      usage_factor(2)[of t] by auto
  then have "of_int 40 \<le> ?q"
    using score_ranges(1)[of l] score_ranges(2)[of now y] score_ranges(3)[of a]
      score_ranges(4)[of t]
    by auto
  then have "of_int 40 \<le> Math_round ?q" by (rule Math_round_lower)
  then show ?thesis by (simp add: totalScore_eq)
qed

lemma potentialIssues_length:
  "length (generatePotentialIssues lv fs) =
     (if lv = Low then 3 else 3 + length (filter (\<lambda>f. impact f = High) fs))"
  by (cases lv) (simp_all add: generatePotentialIssues_def Let_def)

section \<open>The consumers against the level of the data model\<close>














section \<open>The clock and the year\<close>

lemma assessAgeRisk_same_year:
  "getFullYear now1 = getFullYear now2 \<Longrightarrow> assessAgeRisk now1 y = assessAgeRisk now2 y"
  by (simp add: assessAgeRisk_def)

lemma unknown_track_1995:
  "riskLevel (calculateRiskScore eve2024 (str ''Unknown Track'') (str ''Unknown Artist'')
      h 1995 (str ''Indie Records Co'')) = Medium"
  "riskLevel (calculateRiskScore newYear2025 (str ''Unknown Track'') (str ''Unknown Artist'')
      h 1995 (str ''Indie Records Co'')) = Low"
proof -
  have l: "score (assessLabelRisk (str ''Indie Records Co'')) = 40"
    by (simp add: label_score_impact majorLabels_def str_def)
  have p: "score (assessPopularityRisk (str ''Unknown Artist'')) = 35"
    using popularity_score_impact[of "str ''Unknown Artist''"]
    by (simp add: veryPopularArtists_def popularArtists_def str_def)
  have u: "score (assessPreviousUsageRisk (str ''Unknown Track'')) = 30"
    using usage_score_impact[of "str ''Unknown Track''"]
    by (simp add: frequentlySampledTracks_def moderatelySampledTracks_def str_def)
  have a1: "score (assessAgeRisk eve2024 1995) = 60"
    using age_score_impact[of eve2024 1995] by (simp add: getFullYear_def)
  have a2: "score (assessAgeRisk newYear2025 1995) = 40"
    using age_score_impact[of newYear2025 1995] by (simp add: getFullYear_def)
  have "totalScore (calculateRiskScore eve2024 (str ''Unknown Track'') (str ''Unknown Artist'')
      h 1995 (str ''Indie Records Co'')) = 40"
    by (simp only: totalScore_eq l p u a1) (simp add: Math_round_def floor_eq_iff)
  then show "riskLevel (calculateRiskScore eve2024 (str ''Unknown Track'') (str ''Unknown Artist'')
      h 1995 (str ''Indie Records Co'')) = Medium"
    by (simp only: riskLevel_eq) simp
  have "totalScore (calculateRiskScore newYear2025 (str ''Unknown Track'')
      (str ''Unknown Artist'') h 1995 (str ''Indie Records Co'')) = 36"
    by (simp only: totalScore_eq l p u a2) (simp add: Math_round_def floor_eq_iff)
  then show "riskLevel (calculateRiskScore newYear2025 (str ''Unknown Track'')
      (str ''Unknown Artist'') h 1995 (str ''Indie Records Co'')) = Low"
    by (simp only: riskLevel_eq) simp
qed

section \<open>Properties of the assessors\<close>

text \<open>
  C4. For every release year, with the age the current year minus the release year,
  \<open>assessAgeRisk\<close> returns weight 2 and the score and impact of the first bracket
  reached from the top: 70 and more gives 20 and low, 50 to 69 gives 30 and low, 30 to 49
  gives 40 and medium, 10 to 29 gives 60 and medium, and every age below 10, the negative
  ages of future years included, gives 75 and high. At the ages 70, 69, 50, 49, 30, 29,
  10 and 9 the scores are 20, 30, 30, 40, 40, 60, 60 and 75.
\<close>

theorem assessAgeRisk_brackets:
  "let f = assessAgeRisk now releaseYear; age = getFullYear now - releaseYear in
     weight f = 2 \<and>
     (age \<ge> 70 \<longrightarrow> score f = 20 \<and> impact f = Low) \<and>
     (50 \<le> age \<and> age < 70 \<longrightarrow> score f = 30 \<and> impact f = Low) \<and>
     (30 \<le> age \<and> age < 50 \<longrightarrow> score f = 40 \<and> impact f = Medium) \<and>
     (10 \<le> age \<and> age < 30 \<longrightarrow> score f = 60 \<and> impact f = Medium) \<and>
     (age < 10 \<longrightarrow> score f = 75 \<and> impact f = High) \<and>
     map (\<lambda>a. score (assessAgeRisk now (getFullYear now - a))) [70, 69, 50, 49, 30, 29, 10, 9]
       = [20, 30, 30, 40, 40, 60, 60, 75]"
  using age_score_impact[of now releaseYear]
  by (simp add: Let_def age_factor(1) assessAgeRisk_def split: if_splits)

text \<open>
  The brackets at work in 2024: release years 1950, 1970, 1990, 2010, 2020 and the
  future year 2030.
\<close>

theorem assessAgeRisk_brackets_witness:
  "map (\<lambda>y. (score (assessAgeRisk spring2024 y), impact (assessAgeRisk spring2024 y)))
     [1950, 1970, 1990, 2010, 2020, 2030]
   = [(20, Low), (30, Low), (40, Medium), (60, Medium), (75, High), (75, High)]"
  using assessAgeRisk_brackets[of spring2024 1950] assessAgeRisk_brackets[of spring2024 1970]
    assessAgeRisk_brackets[of spring2024 1990] assessAgeRisk_brackets[of spring2024 2010]
    assessAgeRisk_brackets[of spring2024 2020] assessAgeRisk_brackets[of spring2024 2030]
  by (simp add: Let_def getFullYear_def)

text \<open>
  C5, as the code has it. A label is major exactly when it contains one of the twelve
  fragments. A major label yields score 80 and impact high, any other label, the empty
  one included, score 40 and impact medium; the weight is 3 in both cases. "Universal
  Music Group" yields 80 and high, "Indie Records Co" yields 40 and medium.
\<close>

theorem assessLabelRisk_classification:
  "let f = assessLabelRisk label;
       major = (\<exists>m \<in> set (map str [''Universal'', ''Sony'', ''Warner'', ''EMI'', ''Columbia'',
                  ''Atlantic'', ''Interscope'', ''Capitol'', ''Def Jam'', ''RCA'', ''Republic'',
                  ''Polydor'']). sublist m label) in
     weight f = 3 \<and>
     score f = (if major then 80 else 40) \<and>
     impact f = (if major then High else Medium) \<and>
     score (assessLabelRisk (str ''Universal Music Group'')) = 80 \<and>
     impact (assessLabelRisk (str ''Universal Music Group'')) = High \<and>
     score (assessLabelRisk (str ''Indie Records Co'')) = 40 \<and>
     impact (assessLabelRisk (str ''Indie Records Co'')) = Medium \<and>
     score (assessLabelRisk []) = 40 \<and> impact (assessLabelRisk []) = Medium"
proof -
  have "score (assessLabelRisk (str ''Universal Music Group'')) = 80"
       "impact (assessLabelRisk (str ''Universal Music Group'')) = High"
       "score (assessLabelRisk (str ''Indie Records Co'')) = 40"
       "impact (assessLabelRisk (str ''Indie Records Co'')) = Medium"
       "score (assessLabelRisk []) = 40" "impact (assessLabelRisk []) = Medium"
    by (simp_all add: label_score_impact majorLabels_def str_def)
  moreover have "score (assessLabelRisk label) =
      (if (\<exists>m \<in> set majorLabels. sublist m label) then 80 else 40)"
    "impact (assessLabelRisk label) =
      (if (\<exists>m \<in> set majorLabels. sublist m label) then High else Medium)"
    by (simp_all only: label_score_impact some_includes_sublist)
  ultimately show ?thesis
    by (simp only: Let_def label_factor(1) majorLabels_def)
qed

text \<open>
  The weight of the label factor is not 2 for a label that is not major: for the empty
  label it is 3.
\<close>

theorem assessLabelRisk_weight_counterexample:
  "\<not> (score (assessLabelRisk []) = 40 \<and> weight (assessLabelRisk []) = 2
      \<and> impact (assessLabelRisk []) = Medium)"
  by (simp add: label_factor(1))

text \<open>
  C10, as the code has it. For two release years \<open>y1 < y2\<close> seen from the same
  current year, when the two ages fall in different brackets the score for the older
  year \<open>y1\<close> is at most the score for \<open>y2\<close>.
\<close>

theorem assessAgeRisk_monotone:
  assumes "y1 < y2"
    and "ageBracket (getFullYear now - y1) \<noteq> ageBracket (getFullYear now - y2)"
  shows "score (assessAgeRisk now y1) \<le> score (assessAgeRisk now y2)"
  using assms age_score_impact[of now y1] age_score_impact[of now y2]
  by (simp add: Let_def ageBracket_def split: if_splits)

text \<open>The years 1950 and 2020 seen from 2024: scores 20 and 75.\<close>

theorem assessAgeRisk_monotone_witness:
  "(1950::int) < 2020 \<and>
   ageBracket (getFullYear spring2024 - 1950) \<noteq> ageBracket (getFullYear spring2024 - 2020) \<and>
   score (assessAgeRisk spring2024 1950) \<le> score (assessAgeRisk spring2024 2020)"
proof -
  have h1: "(1950::int) < 2020" by simp
  have h2: "ageBracket (getFullYear spring2024 - 1950) \<noteq> ageBracket (getFullYear spring2024 - 2020)"
    by (simp add: getFullYear_def ageBracket_def)
  from h1 h2 assessAgeRisk_monotone[OF h1 h2] show ?thesis by blast
qed

text \<open>
  The order the other way round fails on the same two years: 20 is not at least 75.
\<close>

theorem assessAgeRisk_order_counterexample:
  "\<not> ((1950::int) < 2020 \<and>
       ageBracket (getFullYear spring2024 - 1950) \<noteq> ageBracket (getFullYear spring2024 - 2020)
     \<longrightarrow> score (assessAgeRisk spring2024 1950) \<ge> score (assessAgeRisk spring2024 2020))"
  using age_score_impact[of spring2024 1950] age_score_impact[of spring2024 2020]
  by (simp add: getFullYear_def ageBracket_def)

section \<open>The two scenarios\<close>

text \<open>
  C3. In the year 2024, the track "Funky Drummer - James Brown" by "James Brown" on
  "Polydor Records", released in 1970, gets the factor scores 80, 30, 85 and 70 with
  impacts high, low, high and high, the weights 3, 2, 2.5 and 2.5, the weighted mean
  68.75, the total score 69 and the risk level medium.
\<close>

theorem scenario_A:
  assumes "getFullYear now = 2024"
  shows "let r = calculateRiskScore now (str ''Funky Drummer - James Brown'') (str ''James Brown'')
                   rightsHolder 1970 (str ''Polydor Records'') in
     map score (factors r) = [80, 30, 85, 70] \<and>
     map impact (factors r) = [High, Low, High, High] \<and>
     map weight (factors r) = [3, 2, 5 / 2, 5 / 2] \<and>
     (\<Sum>f\<leftarrow>factors r. score f * weight f) / (\<Sum>f\<leftarrow>factors r. weight f) = 6875 / 100 \<and>
     totalScore r = 69 \<and> riskLevel r = Medium"
proof -
  let ?r = "calculateRiskScore now (str ''Funky Drummer - James Brown'') (str ''James Brown'')
                   rightsHolder 1970 (str ''Polydor Records'')"
  have l: "score (assessLabelRisk (str ''Polydor Records'')) = 80"
          "impact (assessLabelRisk (str ''Polydor Records'')) = High"
    by (simp_all add: label_score_impact majorLabels_def str_def)
  have a: "score (assessAgeRisk now 1970) = 30" "impact (assessAgeRisk now 1970) = Low"
    using age_score_impact[of now 1970] assms by simp_all
  have p: "score (assessPopularityRisk (str ''James Brown'')) = 85"
          "impact (assessPopularityRisk (str ''James Brown'')) = High"
    using popularity_score_impact[of "str ''James Brown''"]
    by (simp_all add: veryPopularArtists_def str_def)
  have u: "score (assessPreviousUsageRisk (str ''Funky Drummer - James Brown'')) = 70"
          "impact (assessPreviousUsageRisk (str ''Funky Drummer - James Brown'')) = High"
    using usage_score_impact[of "str ''Funky Drummer - James Brown''"]
    by (simp_all add: frequentlySampledTracks_def str_def)
  have "map score (factors ?r) = [80, 30, 85, 70]"
    by (simp add: factors_eq l a p u)
  moreover have "map impact (factors ?r) = [High, Low, High, High]"
    by (simp add: factors_eq l a p u)
  moreover have "map weight (factors ?r) = [3, 2, 5 / 2, 5 / 2]"
    by (simp add: factors_eq label_factor(1) age_factor(1) popularity_factor(1) usage_factor(1))
  moreover have "(\<Sum>f\<leftarrow>factors ?r. score f * weight f) / (\<Sum>f\<leftarrow>factors ?r. weight f) = 6875 / 100"
    by (simp add: weight_sum weighted_sum l a p u)
  moreover have t: "totalScore ?r = 69"
    by (simp add: totalScore_eq l a p u Math_round_def floor_eq_iff)
  moreover have "riskLevel ?r = Medium"
    by (simp add: riskLevel_eq t)
  ultimately show ?thesis by (simp add: Let_def)
qed

text \<open>The scenario on a day of May 2024.\<close>

theorem scenario_A_witness:
  "getFullYear spring2024 = 2024 \<and>
   totalScore (calculateRiskScore spring2024 (str ''Funky Drummer - James Brown'')
      (str ''James Brown'') (str ''Polydor Records'') 1970 (str ''Polydor Records'')) = 69 \<and>
   riskLevel (calculateRiskScore spring2024 (str ''Funky Drummer - James Brown'')
      (str ''James Brown'') (str ''Polydor Records'') 1970 (str ''Polydor Records'')) = Medium"
proof -
  have h: "getFullYear spring2024 = 2024" by (simp add: getFullYear_def)
  show ?thesis
    using h scenario_A[OF h, of "str ''Polydor Records''"] by (simp add: Let_def)
qed

text \<open>
  C6, as the code has it. For a label that contains no fragment of a major label, an
  artist in neither list, a track in neither list and a release in the current year,
  the factor scores are 40, 75, 35 and 30 with the weights 3, 2, 2.5 and 2.5, the
  weighted mean is 43.25, the total score 43 and the risk level medium.
\<close>

theorem scenario_B:
  assumes "\<forall>m\<in>set majorLabels. \<not> sublist m label"
    and "\<forall>a\<in>set (veryPopularArtists @ popularArtists). \<not> sublist a originalArtist"
    and "\<forall>t\<in>set (frequentlySampledTracks @ moderatelySampledTracks). \<not> sublist t sourceTrack"
    and "releaseYear = getFullYear now"
  shows "let r = calculateRiskScore now sourceTrack originalArtist rightsHolder releaseYear label in
     map score (factors r) = [40, 75, 35, 30] \<and>
     map weight (factors r) = [3, 2, 5 / 2, 5 / 2] \<and>
     (\<Sum>f\<leftarrow>factors r. score f * weight f) / (\<Sum>f\<leftarrow>factors r. weight f) = 4325 / 100 \<and>
     totalScore r = 43 \<and> riskLevel r = Medium"
proof -
  let ?r = "calculateRiskScore now sourceTrack originalArtist rightsHolder releaseYear label"
  have l: "score (assessLabelRisk label) = 40"
    using assms(1) by (simp add: label_score_impact some_includes_sublist)
  have a: "score (assessAgeRisk now releaseYear) = 75"
    using age_score_impact[of now releaseYear] assms(4) by simp
  have p: "score (assessPopularityRisk originalArtist) = 35"
    using popularity_score_impact[of originalArtist] assms(2)
    by (simp add: some_includes_sublist)
  have u: "score (assessPreviousUsageRisk sourceTrack) = 30"
    using usage_score_impact[of sourceTrack] assms(3)
    by (simp add: some_includes_sublist)
  have "map score (factors ?r) = [40, 75, 35, 30]"
    by (simp add: factors_eq l a p u)
  moreover have "map weight (factors ?r) = [3, 2, 5 / 2, 5 / 2]"
    by (simp add: factors_eq label_factor(1) age_factor(1) popularity_factor(1) usage_factor(1))
  moreover have "(\<Sum>f\<leftarrow>factors ?r. score f * weight f) / (\<Sum>f\<leftarrow>factors ?r. weight f) = 4325 / 100"
    by (simp add: weight_sum weighted_sum l a p u)
  moreover have t: "totalScore ?r = 43"
    by (simp add: totalScore_eq l a p u Math_round_def floor_eq_iff)
  moreover have "riskLevel ?r = Medium"
    by (simp add: riskLevel_eq t)
  ultimately show ?thesis by (simp add: Let_def)
qed

text \<open>The scenario for an unknown track on an independent label, in 2024.\<close>

theorem scenario_B_witness:
  "let r = calculateRiskScore spring2024 (str ''Unknown Track'') (str ''Unknown Artist'')
             (str ''Unknown Holder'') 2024 (str ''Indie Records Co'') in
     map score (factors r) = [40, 75, 35, 30] \<and>
     map weight (factors r) = [3, 2, 5 / 2, 5 / 2] \<and>
     totalScore r = 43 \<and> riskLevel r = Medium"
proof -
  have "\<not> some (\<lambda>m. includes_js (str ''Indie Records Co'') m) majorLabels"
    by (simp add: majorLabels_def str_def)
  then have 1: "\<forall>m\<in>set majorLabels. \<not> sublist m (str ''Indie Records Co'')"
    by (simp add: some_includes_sublist)
  have "\<not> some (\<lambda>m. includes_js (str ''Unknown Artist'') m) (veryPopularArtists @ popularArtists)"
    by (simp add: veryPopularArtists_def popularArtists_def str_def)
  then have 2: "\<forall>a\<in>set (veryPopularArtists @ popularArtists). \<not> sublist a (str ''Unknown Artist'')"
    by (simp only: some_includes_sublist) blast
  have "\<not> some (\<lambda>m. includes_js (str ''Unknown Track'') m)
          (frequentlySampledTracks @ moderatelySampledTracks)"
    by (simp add: frequentlySampledTracks_def moderatelySampledTracks_def str_def)
  then have 3: "\<forall>t\<in>set (frequentlySampledTracks @ moderatelySampledTracks).
          \<not> sublist t (str ''Unknown Track'')"
    by (simp only: some_includes_sublist) blast
  have 4: "(2024::int) = getFullYear spring2024" by (simp add: getFullYear_def)
  show ?thesis
    using scenario_B[OF 1 2 3 4, of "str ''Unknown Holder''"] by (simp only: Let_def)
qed

text \<open>
  On that input the weights are not 2, 2, 2.5 and 2.5 and the total score is not 44.
\<close>

theorem scenario_B_counterexample:
  "\<not> ((\<forall>m\<in>set majorLabels. \<not> sublist m (str ''Indie Records Co'')) \<and>
      (\<forall>a\<in>set (veryPopularArtists @ popularArtists). \<not> sublist a (str ''Unknown Artist'')) \<and>
      (\<forall>t\<in>set (frequentlySampledTracks @ moderatelySampledTracks).
          \<not> sublist t (str ''Unknown Track'')) \<and>
      (2024::int) = getFullYear spring2024
    \<longrightarrow> (let r = calculateRiskScore spring2024 (str ''Unknown Track'') (str ''Unknown Artist'')
                 (str ''Unknown Holder'') 2024 (str ''Indie Records Co'') in
         map score (factors r) = [40, 75, 35, 30] \<and>
         map weight (factors r) = [2, 2, 5 / 2, 5 / 2] \<and>
         totalScore r = 44 \<and> riskLevel r = Medium))"
proof -
  have "\<not> some (\<lambda>m. includes_js (str ''Indie Records Co'') m) majorLabels"
    by (simp add: majorLabels_def str_def)
  then have 1: "\<forall>m\<in>set majorLabels. \<not> sublist m (str ''Indie Records Co'')"
    by (simp add: some_includes_sublist)
  have "\<not> some (\<lambda>m. includes_js (str ''Unknown Artist'') m) (veryPopularArtists @ popularArtists)"
    by (simp add: veryPopularArtists_def popularArtists_def str_def)
  then have 2: "\<forall>a\<in>set (veryPopularArtists @ popularArtists). \<not> sublist a (str ''Unknown Artist'')"
    by (simp only: some_includes_sublist) blast
  have "\<not> some (\<lambda>m. includes_js (str ''Unknown Track'') m)
          (frequentlySampledTracks @ moderatelySampledTracks)"
    by (simp add: frequentlySampledTracks_def moderatelySampledTracks_def str_def)
  then have 3: "\<forall>t\<in>set (frequentlySampledTracks @ moderatelySampledTracks).
          \<not> sublist t (str ''Unknown Track'')"
    by (simp only: some_includes_sublist) blast
  have 4: "(2024::int) = getFullYear spring2024" by (simp add: getFullYear_def)
  have "map weight (factors (calculateRiskScore spring2024 (str ''Unknown Track'')
       (str ''Unknown Artist'') (str ''Unknown Holder'') 2024 (str ''Indie Records Co'')))
       \<noteq> [2, 2, 5 / 2, 5 / 2]"
    by (simp add: factors_eq label_factor(1))
  with 1 2 3 4 show ?thesis by (simp only: Let_def) blast
qed

section \<open>The weighted mean and the risk level\<close>




section \<open>The narrative lists\<close>

text \<open>
  C7. For every input, \<open>potentialIssues\<close> has three entries plus one for each factor of
  high impact, and \<open>mitigationStrategies\<close> has one entry for each factor that carries a
  mitigation, which is four.
\<close>

theorem narrative_lengths:
  "let r = calculateRiskScore now sourceTrack originalArtist rightsHolder releaseYear label in
     length (potentialIssues r) = 3 + length (filter (\<lambda>f. impact f = High) (factors r)) \<and>
     length (mitigationStrategies r) = length (filter (\<lambda>f. mitigation f \<noteq> None) (factors r)) \<and>
     length (mitigationStrategies r) = 4"
proof -
  let ?r = "calculateRiskScore now sourceTrack originalArtist rightsHolder releaseYear label"
  have "length (potentialIssues ?r) = 3 + length (filter (\<lambda>f. impact f = High) (factors ?r))"
  proof (cases "riskLevel ?r = Low")
    case True
    then have "\<not> 40 \<le> totalScore ?r"
      by (simp add: riskLevel_eq split: if_splits)
    then have "\<not> (impact (assessLabelRisk label) = High
       \<or> impact (assessAgeRisk now releaseYear) = High
       \<or> impact (assessPopularityRisk originalArtist) = High
       \<or> impact (assessPreviousUsageRisk sourceTrack) = High)"
      using high_impact_not_low[of label now releaseYear originalArtist sourceTrack rightsHolder]
      by blast
    then have "filter (\<lambda>f. impact f = High) (factors ?r) = []"
      by (simp add: factors_eq)
    with True show ?thesis
      by (simp add: potentialIssues_eq potentialIssues_length)
  next
    case False
    then show ?thesis by (simp add: potentialIssues_eq potentialIssues_length)
  qed
  moreover have "length (mitigationStrategies ?r) = 4"
    by (simp add: mitigationStrategies_eq factors_eq label_factor(4) age_factor(4)
        popularity_factor(4) usage_factor(4))
  moreover have "length (filter (\<lambda>f. mitigation f \<noteq> None) (factors ?r)) = 4"
    by (simp add: factors_eq label_factor(3) age_factor(3)
        popularity_factor(3) usage_factor(3))
  ultimately show ?thesis by (simp add: Let_def)
qed

section \<open>What the result depends on\<close>

text \<open>
  C9, as the code has it. Two calls made in the same calendar year that agree on
  \<open>sourceTrack\<close>, \<open>originalArtist\<close>, \<open>releaseYear\<close> and \<open>label\<close> return the
  same result in every field, whatever their \<open>rightsHolder\<close> arguments are: no
  assessor reads the parameter.
\<close>

theorem rightsHolder_dead:
  assumes "getFullYear now1 = getFullYear now2"
  shows "calculateRiskScore now1 sourceTrack originalArtist rightsHolder1 releaseYear label =
         calculateRiskScore now2 sourceTrack originalArtist rightsHolder2 releaseYear label"
  using assessAgeRisk_same_year[OF assms, of releaseYear]
  by (simp add: calculateRiskScore_def)

text \<open>Two rights holders for one track, on a day of May and on the last day of 2024.\<close>

theorem rightsHolder_dead_witness:
  "getFullYear spring2024 = getFullYear eve2024 \<and>
   calculateRiskScore spring2024 (str ''Funky Drummer'') (str ''James Brown'')
      (str ''Universal Music Publishing'') 1970 (str ''Polydor Records'')
   = calculateRiskScore eve2024 (str ''Funky Drummer'') (str ''James Brown'')
      (str ''Estate of James Brown'') 1970 (str ''Polydor Records'')"
proof -
  have h: "getFullYear spring2024 = getFullYear eve2024" by (simp add: getFullYear_def)
  from h rightsHolder_dead[OF h] show ?thesis by blast
qed

text \<open>
  Without the condition on the year, two calls that differ in \<open>rightsHolder\<close> only
  can differ in their results: the last day of 2024 and the first day of 2025, for a
  track of 1995.
\<close>

theorem rightsHolder_two_years_counterexample:
  "calculateRiskScore eve2024 (str ''Unknown Track'') (str ''Unknown Artist'')
      (str ''Holder A'') 1995 (str ''Indie Records Co'')
   \<noteq> calculateRiskScore newYear2025 (str ''Unknown Track'') (str ''Unknown Artist'')
      (str ''Holder B'') 1995 (str ''Indie Records Co'')"
  using unknown_track_1995(1)[of "str ''Holder A''"] unknown_track_1995(2)[of "str ''Holder B''"]
  by (metis level.distinct(5))

text \<open>
  C8, as the code has it. The result depends on the clock beside the arguments, and on
  the clock through its year only: two calls with identical arguments made in the same
  calendar year return identical results.
\<close>

theorem clock_only_year:
  assumes "getFullYear now1 = getFullYear now2"
  shows "calculateRiskScore now1 sourceTrack originalArtist rightsHolder releaseYear label =
         calculateRiskScore now2 sourceTrack originalArtist rightsHolder releaseYear label"
proof -
  have "assessAgeRisk now1 releaseYear = assessAgeRisk now2 releaseYear"
    using assms by (simp add: assessAgeRisk_def)
  then show ?thesis by (simp add: calculateRiskScore_def)
qed

text \<open>A day of May and the last day of December 2024.\<close>

theorem clock_only_year_witness:
  "getFullYear spring2024 = getFullYear eve2024 \<and>
   calculateRiskScore spring2024 (str ''Unknown Track'') (str ''Unknown Artist'')
      (str ''Unknown Holder'') 1995 (str ''Indie Records Co'')
   = calculateRiskScore eve2024 (str ''Unknown Track'') (str ''Unknown Artist'')
      (str ''Unknown Holder'') 1995 (str ''Indie Records Co'')"
proof -
  have h: "getFullYear spring2024 = getFullYear eve2024" by (simp add: getFullYear_def)
  from h clock_only_year[OF h] show ?thesis by blast
qed

text \<open>
  Across the turn of the year the same arguments give two results: a track of 1995 is
  29 years old and of medium risk on the last day of 2024, 30 years old and of low risk
  on the next day.
\<close>

theorem clock_counterexample:
  "calculateRiskScore eve2024 (str ''Unknown Track'') (str ''Unknown Artist'')
      (str ''Unknown Holder'') 1995 (str ''Indie Records Co'')
   \<noteq> calculateRiskScore newYear2025 (str ''Unknown Track'') (str ''Unknown Artist'')
      (str ''Unknown Holder'') 1995 (str ''Indie Records Co'')"
proof -
  have l: "score (assessLabelRisk (str ''Indie Records Co'')) = 40"
    by (simp add: label_score_impact majorLabels_def str_def)
  have p: "score (assessPopularityRisk (str ''Unknown Artist'')) = 35"
    using popularity_score_impact[of "str ''Unknown Artist''"]
    by (simp add: veryPopularArtists_def popularArtists_def str_def)
  have u: "score (assessPreviousUsageRisk (str ''Unknown Track'')) = 30"
    using usage_score_impact[of "str ''Unknown Track''"]
    by (simp add: frequentlySampledTracks_def moderatelySampledTracks_def str_def)
  have a1: "score (assessAgeRisk eve2024 1995) = 60"
    using age_score_impact[of eve2024 1995] by (simp add: getFullYear_def)
  have a2: "score (assessAgeRisk newYear2025 1995) = 40"
    using age_score_impact[of newYear2025 1995] by (simp add: getFullYear_def)
  have "totalScore (calculateRiskScore eve2024 (str ''Unknown Track'') (str ''Unknown Artist'')
      (str ''Unknown Holder'') 1995 (str ''Indie Records Co'')) = 40"
    by (simp only: totalScore_eq l p u a1) (simp add: Math_round_def floor_eq_iff)
  then have "riskLevel (calculateRiskScore eve2024 (str ''Unknown Track'') (str ''Unknown Artist'')
      (str ''Unknown Holder'') 1995 (str ''Indie Records Co'')) = Medium"
    by (simp only: riskLevel_eq) simp
  moreover have "totalScore (calculateRiskScore newYear2025 (str ''Unknown Track'')
      (str ''Unknown Artist'') (str ''Unknown Holder'') 1995 (str ''Indie Records Co'')) = 36"
    by (simp only: totalScore_eq l p u a2) (simp add: Math_round_def floor_eq_iff)
  then have "riskLevel (calculateRiskScore newYear2025 (str ''Unknown Track'')
      (str ''Unknown Artist'') (str ''Unknown Holder'') 1995 (str ''Indie Records Co'')) = Low"
    by (simp only: riskLevel_eq) simp
  ultimately show ?thesis by (metis level.distinct(5))
qed

end
